theory Spec2Isabelle
  imports Main "HOL-Library.Sublist" "HOL-Library.Word"
begin

section \<open>Python strings\<close>

text \<open>
  A Python \<open>str\<close> is modelled as the list of its code points, restricted to the code
  points below 256 (the range of \<^typ>\<open>char\<close>). A path is the string that \<open>str(path)\<close>
  gives; \<open>p / name\<close> is the concatenation with a separator, and pathlib's removal of
  redundant separators is not modelled.
\<close>

definition is_space :: "char \<Rightarrow> bool" where
  \<comment> \<open>\<open>str.isspace\<close> on the code points below 256\<close>
  "is_space c = (let n = (of_char c :: nat) in
     (9 \<le> n \<and> n \<le> 13) \<or> (28 \<le> n \<and> n \<le> 32) \<or> n = 133 \<or> n = 160)"

definition str_strip :: "string \<Rightarrow> string" where
  \<comment> \<open>\<open>s.strip()\<close>\<close>
  "str_strip s = rev (dropWhile is_space (rev (dropWhile is_space s)))"

definition str_rstrip_chars :: "string \<Rightarrow> string \<Rightarrow> string" where
  \<comment> \<open>\<open>s.rstrip(chars)\<close>\<close>
  "str_rstrip_chars chars s = rev (dropWhile (\<lambda>c. c \<in> set chars) (rev s))"

definition lower_char :: "char \<Rightarrow> char" where
  "lower_char c = (let n = (of_char c :: nat) in
     if (65 \<le> n \<and> n \<le> 90) \<or> (192 \<le> n \<and> n \<le> 222 \<and> n \<noteq> 215)
     then char_of (n + 32) else c)"

definition upper_char :: "char \<Rightarrow> char" where
  \<comment> \<open>The upper case of the code points 181, 223 and 255 lies outside the modelled
      range; they are kept. No upper case of theirs contains an ASCII letter.\<close>
  "upper_char c = (let n = (of_char c :: nat) in
     if (97 \<le> n \<and> n \<le> 122) \<or> (224 \<le> n \<and> n \<le> 254 \<and> n \<noteq> 247)
     then char_of (n - 32) else c)"

definition str_lower :: "string \<Rightarrow> string" where
  "str_lower s = map lower_char s"

definition str_upper :: "string \<Rightarrow> string" where
  "str_upper s = map upper_char s"

fun str_split :: "char \<Rightarrow> string \<Rightarrow> string list" where
  \<comment> \<open>\<open>s.split(sep)\<close> for a separator of one character\<close>
  "str_split sep [] = [] # []"
| "str_split sep (c # cs) =
     (if c = sep then [] # str_split sep cs
      else (case str_split sep cs of
              [] \<Rightarrow> [c] # []
            | p # ps \<Rightarrow> (c # p) # ps))"

fun str_join :: "string \<Rightarrow> string list \<Rightarrow> string" where
  \<comment> \<open>\<open>sep.join(xs)\<close>\<close>
  "str_join sep [] = []"
| "str_join sep [x] = x"
| "str_join sep (x # y # ys) = x @ sep @ str_join sep (y # ys)"

definition str_in :: "string \<Rightarrow> string \<Rightarrow> bool" where
  \<comment> \<open>\<open>needle in hay\<close>\<close>
  "str_in needle hay = sublist needle hay"

function str_replace :: "string \<Rightarrow> string \<Rightarrow> string \<Rightarrow> string" where
  \<comment> \<open>\<open>s.replace(old, new)\<close> for a non-empty \<open>old\<close>\<close>
  "str_replace old new s =
     (if old = [] \<or> s = [] then s
      else if prefix old s then new @ str_replace old new (drop (length old) s)
      else hd s # str_replace old new (tl s))"
  by pat_completeness auto
termination
  by (relation "measure (\<lambda>(old, new, s). length s)") auto

definition digit_val :: "char \<Rightarrow> nat option" where
  "digit_val c = (let n = (of_char c :: nat) in
     if 48 \<le> n \<and> n \<le> 57 then Some (n - 48) else None)"

definition digits_value :: "string \<Rightarrow> int" where
  "digits_value ds = foldl (\<lambda>a c. 10 * a + int (case digit_val c of Some d \<Rightarrow> d | None \<Rightarrow> 0)) 0 ds"

definition parse_digits :: "string \<Rightarrow> int option" where
  \<comment> \<open>decimal digits, single underscores allowed between digits\<close>
  "parse_digits s = (let groups = str_split (CHR ''_'') s in
     if list_all (\<lambda>g. g \<noteq> [] \<and> list_all (\<lambda>c. digit_val c \<noteq> None) g) groups
     then Some (digits_value (concat groups)) else None)"

definition py_int :: "string \<Rightarrow> int option" where
  \<comment> \<open>\<open>int(s)\<close>; \<open>None\<close> is \<open>ValueError\<close>. The interpreter's limit on the number
      of digits of a literal is not modelled.\<close>
  "py_int s = (case str_strip s of
       [] \<Rightarrow> None
     | c # r \<Rightarrow>
         if c = CHR ''-'' then map_option uminus (parse_digits r)
         else if c = CHR ''+'' then parse_digits r
         else parse_digits (c # r))"

definition digit_char :: "nat \<Rightarrow> char" where
  "digit_char d = char_of (48 + d)"

fun str_nat :: "nat \<Rightarrow> string" where
  "str_nat n = (if n < 10 then [digit_char n] else str_nat (n div 10) @ [digit_char (n mod 10)])"

definition str_of_int :: "int \<Rightarrow> string" where
  \<comment> \<open>\<open>str(i)\<close>\<close>
  "str_of_int i = (if i < 0 then CHR ''-'' # str_nat (nat (- i)) else str_nat (nat i))"

definition quoted :: "string \<Rightarrow> string" where
  "quoted s = [CHR 0x27] @ s @ [CHR 0x27]"

type_synonym path = string

definition path_join :: "path \<Rightarrow> string \<Rightarrow> path" where
  "path_join p name = p @ ''/'' @ name"

definition path_name :: "path \<Rightarrow> string" where
  \<comment> \<open>\<open>p.name\<close>: the last component\<close>
  "path_name p = last (str_split (CHR ''/'') p)"

definition path_parent :: "path \<Rightarrow> path" where
  \<comment> \<open>\<open>p.parent\<close>: all components but the last\<close>
  "path_parent p = str_join ''/'' (butlast (str_split (CHR ''/'') p))"

definition path_stem :: "path \<Rightarrow> string" where
  \<comment> \<open>\<open>p.stem\<close>: the name without its last suffix\<close>
  "path_stem p = (let name = path_name p;
                      suf = takeWhile (\<lambda>c. c \<noteq> CHR ''.'') (rev name);
                      i = length name - length suf - 1
                  in if CHR ''.'' \<in> set name \<and> 0 < i \<and> i < length name - 1
                     then take i name else name)"


section \<open>Errors\<close>

datatype psycopg_error = OperationalError | OtherPsycopgError

datatype request_exception = Timeout | ConnectionError | HTTPError | ChunkedEncodingError

datatype database_failure =
    FailedToConnect
  | DatabaseErrorOther
  | DatabaseNotFound string
  | MustUseUTF8 string
  | FailedToCheck

datatype download_failure = DownloadFailed request_exception | UnexpectedDownloadError

datatype tool_failure = CommandNotFound | ExitCode int | OperationFailed

datatype py_error =
    ConfigurationError string
  | DatabaseError database_failure
  | DownloadError download_failure
  | FilterError tool_failure
  | UploadError tool_failure
  | ValueError string
  | FileNotFoundError string
  | RequestException request_exception
  | CalledProcessError int
  | PsycopgError psycopg_error
  | BadZipFile
  | SqliteError


section \<open>Configuration\<close>

type_synonym environ = "string \<rightharpoonup> string"

definition getenv_or :: "environ \<Rightarrow> string \<Rightarrow> string \<Rightarrow> string" where
  \<comment> \<open>\<open>os.getenv(key, default)\<close>\<close>
  "getenv_or env key d = (case env key of None \<Rightarrow> d | Some v \<Rightarrow> v)"

definition get_env_bool :: "environ \<Rightarrow> string \<Rightarrow> bool \<Rightarrow> bool" where
  "get_env_bool env key d =
     (let v = str_lower (getenv_or env key '''') in
      if v = [] then d
      else v \<in> set [''true'', ''1'', ''yes'', ''on''])"

definition get_env_int :: "environ \<Rightarrow> string \<Rightarrow> int \<Rightarrow> py_error + int" where
  "get_env_int env key d =
     (case env key of
        None \<Rightarrow> Inr d
      | Some v \<Rightarrow>
          if v = [] then Inr d
          else (case py_int v of
                  Some i \<Rightarrow> Inr i
                | None \<Rightarrow> Inl (ConfigurationError (key @ '' must be an integer, got: '' @ v))))"

definition required_msg :: "string \<Rightarrow> string" where
  "required_msg key = key @ '' environment variable is required''"

record db_config =
  db_host :: string
  db_port :: int
  db_name :: string
  db_user :: string
  db_password :: string
  data_dir :: path

record gadm_config = db_config +
  ogr2ogr_path :: string
  gadm_geopackage_url :: string

record osm_config = db_config +
  region :: string
  cache_size_mb :: int
  num_processes :: int
  cleanup :: bool
  drop_slim_tables :: bool
  geofabrik_base_url :: string
  log_level :: string
  log_format :: string

definition connection_string :: "'a db_config_scheme \<Rightarrow> string" where
  "connection_string c =
     ''host='' @ db_host c @ '' port='' @ str_of_int (db_port c) @ '' dbname='' @ db_name c
       @ '' user='' @ db_user c @ '' password='' @ db_password c"

definition gadm_load_config :: "environ \<Rightarrow> py_error + gadm_config" where
  "gadm_load_config env =
     (let host = str_strip (getenv_or env ''DB_HOST'' '''');
          name = str_strip (getenv_or env ''DB_NAME'' '''');
          user = str_strip (getenv_or env ''DB_USER'' '''');
          password = str_strip (getenv_or env ''DB_PASSWORD'' '''')
      in
      if host = [] then Inl (ConfigurationError (required_msg ''DB_HOST''))
      else if name = [] then Inl (ConfigurationError (required_msg ''DB_NAME''))
      else if user = [] then Inl (ConfigurationError (required_msg ''DB_USER''))
      else if password = [] then Inl (ConfigurationError (required_msg ''DB_PASSWORD''))
      else (case get_env_int env ''DB_PORT'' 5432 of
              Inl e \<Rightarrow> Inl e
            | Inr port \<Rightarrow>
                (case env ''GADM_GEOPACKAGE_URL'' of
                   None \<Rightarrow> Inl (ConfigurationError (required_msg ''GADM_GEOPACKAGE_URL''))
                 | Some url \<Rightarrow>
                     if url = [] then Inl (ConfigurationError (required_msg ''GADM_GEOPACKAGE_URL''))
                     else Inr \<lparr> db_host = host, db_port = port, db_name = name,
                                db_user = user, db_password = password,
                                data_dir = getenv_or env ''DATA_DIR'' ''/app/data'',
                                ogr2ogr_path = getenv_or env ''OGR2OGR_PATH'' ''/usr/bin/ogr2ogr'',
                                gadm_geopackage_url = url \<rparr>)))"

definition REGIONS :: "string list" where
  "REGIONS = [''africa'', ''antarctica'', ''asia'', ''australia-oceania'', ''central-america'',
              ''europe'', ''north-america'', ''south-america'', ''planet'']"

definition available_regions :: string where
  "available_regions = [CHR 0x0A] @ ''Available regions: '' @ str_join '', '' REGIONS"

definition osm_load_config :: "environ \<Rightarrow> py_error + osm_config" where
  "osm_load_config env =
     (let reg = str_strip (getenv_or env ''OSM_REGION'' '''') in
      if reg = [] then
        Inl (ConfigurationError (required_msg ''OSM_REGION'' @ ''.'' @ available_regions))
      else if reg \<notin> set REGIONS then
        Inl (ConfigurationError (''Invalid region: '' @ reg @ available_regions))
      else
      let host = str_strip (getenv_or env ''DB_HOST'' '''');
          name = str_strip (getenv_or env ''DB_NAME'' '''');
          user = str_strip (getenv_or env ''DB_USER'' '''');
          password = str_strip (getenv_or env ''DB_PASSWORD'' '''')
      in
      if host = [] then Inl (ConfigurationError (required_msg ''DB_HOST''))
      else if name = [] then Inl (ConfigurationError (required_msg ''DB_NAME''))
      else if user = [] then Inl (ConfigurationError (required_msg ''DB_USER''))
      else if password = [] then Inl (ConfigurationError (required_msg ''DB_PASSWORD''))
      else (case get_env_int env ''DB_PORT'' 5432 of
              Inl e \<Rightarrow> Inl e
            | Inr port \<Rightarrow>
      (case get_env_int env ''CACHE_SIZE_MB'' 2000 of
              Inl e \<Rightarrow> Inl e
            | Inr cache \<Rightarrow>
      (case get_env_int env ''NUM_PROCESSES'' 4 of
              Inl e \<Rightarrow> Inl e
            | Inr procs \<Rightarrow>
      let level = str_upper (getenv_or env ''LOG_LEVEL'' ''INFO'');
          format = str_lower (getenv_or env ''LOG_FORMAT'' ''json'')
      in
      if level \<notin> set [''DEBUG'', ''INFO'', ''WARNING'', ''ERROR''] then
        Inl (ConfigurationError (''Invalid LOG_LEVEL: '' @ level
               @ ''. Must be one of: DEBUG, INFO, WARNING, ERROR''))
      else if format \<notin> set [''json'', ''text''] then
        Inl (ConfigurationError (''Invalid LOG_FORMAT: '' @ format
               @ ''. Must be '' @ quoted ''json'' @ '' or '' @ quoted ''text''))
      else Inr \<lparr> db_host = host, db_port = port, db_name = name,
                 db_user = user, db_password = password,
                 data_dir = getenv_or env ''DATA_DIR'' ''/app/data'',
                 region = reg, cache_size_mb = cache, num_processes = procs,
                 cleanup = get_env_bool env ''CLEANUP'' True,
                 drop_slim_tables = get_env_bool env ''DROP_SLIM_TABLES'' False,
                 geofabrik_base_url =
                   str_rstrip_chars ''/'' (getenv_or env ''GEOFABRIK_BASE_URL'' ''https://download.geofabrik.de''),
                 log_level = level, log_format = format \<rparr>))))"


section \<open>The world outside the program\<close>

text \<open>
  Everything the jobs talk to is a parameter: the environment variables, the database
  server, the HTTP server, the external tools, and the libraries that read an archive or a
  GeoPackage. The database is an oracle: which statements fail and what the catalog
  queries answer; the statements sent to it are recorded, their effect on it is not.
  The filesystem is state: a map from paths to file contents, threaded through the run
  together with the trace of effects. Directory creation is recorded, directories
  themselves are not part of the map, and filesystem calls do not fail. Progress output is
  left out; the messages of the drivers and of the cleanup are recorded.
\<close>

datatype sql =
    SelectEncoding string
  | UpdateEncoding string
  | CreateExtensionPostgis
  | SelectPostgisVersion
  | CreateExtensionHstore
  | Commit
  | SelectExistsTables "string list"
  | SelectCount string

datatype message =
    ErrorMessage py_error
  | ExistingDataSkipping
  | FileExistsSkippingDownload path
  | ZipExistsSkippingDownload
  | FilteredExistsSkipping path
  | CleanedUp path
  | NotFoundNothingToClean path
  | RawFileDeleted path
  | FilteredFileDeleted path
  | PipelineComplete

datatype event =
    Connect string
  | Execute sql
  | HttpGet string
  | RunTool "string list"
  | Mkdir path
  | OpenWrite path
  | WriteText path
  | Extract path
  | Rename path path
  | Unlink path
  | Print message

record database =
  connect_error :: "psycopg_error option"
  execute_error :: "sql \<Rightarrow> psycopg_error option"
  pg_database :: "string \<rightharpoonup> string"
  tables :: "string list"

datatype http_response =
    RequestFails request_exception
  | Response "string option" "string list" "request_exception option"
    \<comment> \<open>the content-length header, the chunks delivered, and the transport failure
        that ends the stream early, if any\<close>

datatype tool_outcome = NotInstalled | Exited int

type_synonym filesystem = "path \<rightharpoonup> string"

record world =
  environ :: environ
  db :: database
  http :: "string \<Rightarrow> http_response"
  tool :: "string list \<Rightarrow> filesystem \<Rightarrow> tool_outcome \<times> filesystem"
  md5 :: "string \<Rightarrow> 128 word"
  zip_members :: "string \<Rightarrow> (string \<times> string) list option"
  gpkg_layers :: "string \<Rightarrow> string list option"

record state =
  files :: filesystem
  trace :: "event list"

definition emit :: "event list \<Rightarrow> state \<Rightarrow> state" where
  "emit evs s = s\<lparr>trace := trace s @ evs\<rparr>"

definition write_file :: "path \<Rightarrow> string \<Rightarrow> state \<Rightarrow> state" where
  "write_file p content s = s\<lparr>files := (files s)(p \<mapsto> content)\<rparr>"

definition unlink :: "path \<Rightarrow> state \<Rightarrow> state" where
  "unlink p s = emit [Unlink p] (s\<lparr>files := (files s)(p := None)\<rparr>)"

definition path_exists :: "state \<Rightarrow> path \<Rightarrow> bool" where
  "path_exists s p = (files s p \<noteq> None)"

definition run_tool :: "world \<Rightarrow> string list \<Rightarrow> state \<Rightarrow> tool_outcome \<times> state" where
  \<comment> \<open>a subprocess that is started and waited for; a missing binary leaves the files alone\<close>
  "run_tool w cmd s =
     (case tool w cmd (files s) of
        (NotInstalled, _) \<Rightarrow> (NotInstalled, emit [RunTool cmd] s)
      | (Exited rc, fs) \<Rightarrow> (Exited rc, emit [RunTool cmd] (s\<lparr>files := fs\<rparr>)))"

fun execute_all :: "database \<Rightarrow> sql list \<Rightarrow> psycopg_error option \<times> event list" where
  \<comment> \<open>\<open>cur.execute\<close> of each statement in turn, up to the first that raises\<close>
  "execute_all d [] = (None, [])"
| "execute_all d (q # qs) =
     (case execute_error d q of
        Some e \<Rightarrow> (Some e, [Execute q])
      | None \<Rightarrow> (case execute_all d qs of (r, evs) \<Rightarrow> (r, Execute q # evs)))"

definition hex_digit :: "nat \<Rightarrow> char" where
  "hex_digit n = (if n < 10 then char_of (48 + n) else char_of (87 + n))"

definition hexdigest :: "128 word \<Rightarrow> string" where
  "hexdigest h = map (\<lambda>i. hex_digit (unat (drop_bit (4 * (31 - i)) h) mod 16)) [0..<32]"


section \<open>Database gatekeeper\<close>

definition wrap_psycopg :: "psycopg_error \<Rightarrow> py_error" where
  \<comment> \<open>the two \<open>except\<close> clauses of \<open>verify_connection\<close>\<close>
  "wrap_psycopg e = (case e of
       OperationalError \<Rightarrow> DatabaseError FailedToConnect
     | OtherPsycopgError \<Rightarrow> DatabaseError DatabaseErrorOther)"

definition ensure_extensions :: "sql list" where
  "ensure_extensions = [CreateExtensionPostgis, SelectPostgisVersion, CreateExtensionHstore, Commit]"

definition gadm_verify_connection ::
  "world \<Rightarrow> 'a db_config_scheme \<Rightarrow> state \<Rightarrow> (py_error + unit) \<times> state" where
  "gadm_verify_connection w c s =
     (case connect_error (db w) of
        Some e \<Rightarrow> (Inl (wrap_psycopg e), emit [Connect (connection_string c)] s)
      | None \<Rightarrow>
     (case execute_error (db w) (SelectEncoding (db_name c)) of
        Some e \<Rightarrow> (Inl (wrap_psycopg e),
                   emit [Connect (connection_string c), Execute (SelectEncoding (db_name c))] s)
      | None \<Rightarrow>
     (case pg_database (db w) (db_name c) of
        None \<Rightarrow> (Inl (DatabaseError (DatabaseNotFound (db_name c))),
                 emit [Connect (connection_string c), Execute (SelectEncoding (db_name c))] s)
      | Some encoding \<Rightarrow>
          (case execute_all (db w)
                  ((if encoding \<noteq> ''UTF8'' then [UpdateEncoding (db_name c)] else [])
                     @ ensure_extensions) of
             (r, evs) \<Rightarrow>
               ((case r of Some e \<Rightarrow> Inl (wrap_psycopg e) | None \<Rightarrow> Inr ()),
                emit (Connect (connection_string c) # Execute (SelectEncoding (db_name c)) # evs) s)))))"

definition osm_verify_connection ::
  "world \<Rightarrow> 'a db_config_scheme \<Rightarrow> state \<Rightarrow> (py_error + unit) \<times> state" where
  \<comment> \<open>The first word of the version that \<open>SELECT PostGIS_version()\<close> returns is taken
      and dropped; PostGIS reports a non-empty version, so taking it does not fail.\<close>
  "osm_verify_connection w c s =
     (case connect_error (db w) of
        Some e \<Rightarrow> (Inl (wrap_psycopg e), emit [Connect (connection_string c)] s)
      | None \<Rightarrow>
     (case execute_error (db w) (SelectEncoding (db_name c)) of
        Some e \<Rightarrow> (Inl (wrap_psycopg e),
                   emit [Connect (connection_string c), Execute (SelectEncoding (db_name c))] s)
      | None \<Rightarrow>
     (case pg_database (db w) (db_name c) of
        None \<Rightarrow> (Inl (DatabaseError (DatabaseNotFound (db_name c))),
                 emit [Connect (connection_string c), Execute (SelectEncoding (db_name c))] s)
      | Some encoding \<Rightarrow>
          if encoding \<noteq> ''UTF8'' then
            (Inl (DatabaseError (MustUseUTF8 encoding)),
             emit [Connect (connection_string c), Execute (SelectEncoding (db_name c))] s)
          else
          (case execute_all (db w) ensure_extensions of
             (r, evs) \<Rightarrow>
               ((case r of Some e \<Rightarrow> Inl (wrap_psycopg e) | None \<Rightarrow> Inr ()),
                emit (Connect (connection_string c) # Execute (SelectEncoding (db_name c)) # evs) s)))))"

definition check_tables ::
  "string list \<Rightarrow> world \<Rightarrow> 'a db_config_scheme \<Rightarrow> state \<Rightarrow> (py_error + bool) \<times> state" where
  \<comment> \<open>the body both jobs share: connect, ask the catalog whether any of the names is a
      table, and turn every psycopg error into a database error\<close>
  "check_tables expected w c s =
     (case connect_error (db w) of
        Some e \<Rightarrow> (Inl (DatabaseError FailedToCheck), emit [Connect (connection_string c)] s)
      | None \<Rightarrow>
     (case execute_error (db w) (SelectExistsTables expected) of
        Some e \<Rightarrow> (Inl (DatabaseError FailedToCheck),
                   emit [Connect (connection_string c), Execute (SelectExistsTables expected)] s)
      | None \<Rightarrow> (Inr (list_ex (\<lambda>t. t \<in> set expected) (tables (db w))),
                 emit [Connect (connection_string c), Execute (SelectExistsTables expected)] s)))"

definition gadm_tables :: "string list" where
  "gadm_tables = [''admin0'', ''admin1'', ''admin2'', ''admin3'', ''admin4'', ''admin5'']"

definition osm_tables :: "string list" where
  "osm_tables = [''planet_osm_point'', ''planet_osm_line'', ''planet_osm_polygon'']"

definition gadm_check_existing_data ::
  "world \<Rightarrow> 'a db_config_scheme \<Rightarrow> state \<Rightarrow> (py_error + bool) \<times> state" where
  "gadm_check_existing_data = check_tables gadm_tables"

definition osm_check_existing_data ::
  "world \<Rightarrow> 'a db_config_scheme \<Rightarrow> state \<Rightarrow> (py_error + bool) \<times> state" where
  "osm_check_existing_data = check_tables osm_tables"

section \<open>Pipeline drivers: catching an exception by its class\<close>

fun is_configuration_error :: "py_error \<Rightarrow> bool" where
  "is_configuration_error (ConfigurationError _) = True"
| "is_configuration_error _ = False"

fun is_database_error :: "py_error \<Rightarrow> bool" where
  "is_database_error (DatabaseError _) = True"
| "is_database_error _ = False"

fun is_download_error :: "py_error \<Rightarrow> bool" where
  "is_download_error (DownloadError _) = True"
| "is_download_error _ = False"

fun is_filter_error :: "py_error \<Rightarrow> bool" where
  "is_filter_error (FilterError _) = True"
| "is_filter_error _ = False"

fun is_upload_error :: "py_error \<Rightarrow> bool" where
  "is_upload_error (UploadError _) = True"
| "is_upload_error _ = False"

definition except :: "(py_error \<Rightarrow> bool) \<Rightarrow> int \<Rightarrow> py_error \<Rightarrow> state \<Rightarrow> (py_error + int) \<times> state" where
  \<comment> \<open>\<open>except cls as e: print(..., file=sys.stderr); return code\<close>; an exception of
      another class leaves \<open>main\<close>\<close>
  "except cls code e s =
     (if cls e then (Inr code, emit [Print (ErrorMessage e)] s) else (Inl e, s))"


section \<open>GADM job: fetcher, loader, cleanup, driver\<close>

definition gadm_raw_dir :: "gadm_config \<Rightarrow> path" where
  "gadm_raw_dir c = path_join (data_dir c) ''gadm_410-levels.gpkg''"

definition gadm_zip_dir :: "gadm_config \<Rightarrow> path" where
  "gadm_zip_dir c = path_join (data_dir c) ''gadm_410-levels.zip''"

definition gadm_md5_dir :: "gadm_config \<Rightarrow> path" where
  "gadm_md5_dir c = path_join (data_dir c) ''gadm_410-levels.md5''"

definition read_md5 :: "state \<Rightarrow> path \<Rightarrow> string option" where
  "read_md5 s file_path = map_option str_strip (files s file_path)"

definition write_md5 :: "string \<Rightarrow> path \<Rightarrow> state \<Rightarrow> state" where
  "write_md5 md5_hash file_path s =
     write_file file_path md5_hash (emit [Mkdir (path_parent file_path), WriteText file_path] s)"

definition calculate_md5 :: "world \<Rightarrow> string \<Rightarrow> string" where
  \<comment> \<open>on the content of the file\<close>
  "calculate_md5 w content = hexdigest (md5 w content)"

definition needs_download :: "world \<Rightarrow> gadm_config \<Rightarrow> state \<Rightarrow> bool" where
  \<comment> \<open>\<open>not zip_file.exists() or not stored_md5 or _calculate_md5(zip_file) != stored_md5\<close>\<close>
  "needs_download w c s =
     (case files s (gadm_zip_dir c) of
        None \<Rightarrow> True
      | Some z \<Rightarrow>
          (case read_md5 s (gadm_md5_dir c) of
             None \<Rightarrow> True
           | Some stored \<Rightarrow> stored = [] \<or> calculate_md5 w z \<noteq> stored))"

definition extract_gpkg :: "world \<Rightarrow> path \<Rightarrow> path \<Rightarrow> state \<Rightarrow> (py_error + unit) \<times> state" where
  \<comment> \<open>Member names are taken as plain relative names, as the source takes them.\<close>
  "extract_gpkg w zip_file gpkg_file s =
     (case files s zip_file of
        None \<Rightarrow> (Inl (FileNotFoundError zip_file), s)
      | Some z \<Rightarrow>
     (case zip_members w z of
        None \<Rightarrow> (Inl BadZipFile, s)
      | Some members \<Rightarrow>
     (case find (\<lambda>m. suffix ''.gpkg'' (fst m)) members of
        None \<Rightarrow> (Inr (), s)
      | Some m \<Rightarrow>
          (let extracted_file = path_join (path_parent zip_file) (fst m);
               s1 = write_file extracted_file (snd m) (emit [Extract extracted_file] s)
           in if extracted_file \<noteq> gpkg_file
              then (Inr (), emit [Rename extracted_file gpkg_file]
                      (s1\<lparr>files := (files s1)(extracted_file := None, gpkg_file \<mapsto> snd m)\<rparr>))
              else (Inr (), s1)))))"

definition download_geopackage_levels ::
  "world \<Rightarrow> gadm_config \<Rightarrow> state \<Rightarrow> (py_error + path) \<times> state" where
  "download_geopackage_levels w c s =
     (let s1 = emit [Mkdir (data_dir c)] s;
          gpkg_file = gadm_raw_dir c;
          zip_file = gadm_zip_dir c;
          finish = (\<lambda>s2. case extract_gpkg w zip_file gpkg_file s2 of
                            (Inl e, s3) \<Rightarrow> (Inl e, s3)
                          | (Inr _, s3) \<Rightarrow> (Inr gpkg_file, s3))
      in
      if needs_download w c s1 then
        (case http w (gadm_geopackage_url c) of
           RequestFails e \<Rightarrow> (Inl (RequestException e), emit [HttpGet (gadm_geopackage_url c)] s1)
         | Response content_length chunks broken \<Rightarrow>
             (let s2 = write_file zip_file (concat chunks)
                         (emit [HttpGet (gadm_geopackage_url c), OpenWrite zip_file] s1)
              in case broken of
                   Some e \<Rightarrow> (Inl (RequestException e), s2)
                 | None \<Rightarrow>
                     finish (write_md5 (calculate_md5 w (concat chunks)) (gadm_md5_dir c) s2)))
      else finish (emit [Print ZipExistsSkippingDownload] s1))"

definition layer_table :: "string \<Rightarrow> py_error + string" where
  \<comment> \<open>the first lines of the loop body of \<open>upload_levels_gpkg\<close>\<close>
  "layer_table layer =
     (let parts = str_split (CHR ''_'') layer in
      if length parts < 2 then
        Inl (ValueError (''Invalid layer name format: '' @ layer @ ''. Expected format: gadmN_admN''))
      else Inr (''admin'' @ parts ! 1))"

definition ogr2ogr_cmd :: "gadm_config \<Rightarrow> string \<Rightarrow> string \<Rightarrow> string list" where
  "ogr2ogr_cmd c layer table_name =
     [ogr2ogr_path c, ''--config'', ''PG_USE_COPY'', ''YES'', ''-overwrite'', ''-gt'', ''100000'',
      ''-f'', ''PostgreSQL'', ''-nln'', table_name, ''-nlt'', ''PROMOTE_TO_MULTI'',
      ''-lco'', ''GEOMETRY_NAME=geom'', ''-lco'', ''FID=ogc_fid'', ''-lco'', ''SPATIAL_INDEX=GIST'',
      ''-sql'', ''SELECT * FROM '' @ layer, ''PG:'' @ connection_string c, gadm_raw_dir c]"

fun import_layers :: "world \<Rightarrow> gadm_config \<Rightarrow> string list \<Rightarrow> state \<Rightarrow> (py_error + unit) \<times> state" where
  \<comment> \<open>the \<open>for layer in layers\<close> loop\<close>
  "import_layers w c [] s = (Inr (), s)"
| "import_layers w c (layer # layers) s =
     (case layer_table layer of
        Inl e \<Rightarrow> (Inl e, s)
      | Inr table_name \<Rightarrow>
     (case run_tool w (ogr2ogr_cmd c layer table_name) s of
        (NotInstalled, s1) \<Rightarrow> (Inl (FileNotFoundError (ogr2ogr_path c)), s1)
      | (Exited rc, s1) \<Rightarrow>
          if rc \<noteq> 0 then (Inl (CalledProcessError rc), s1)
          else
          (case execute_all (db w) [SelectCount table_name, Commit] of
             (Some e, evs) \<Rightarrow> (Inl (PsycopgError e), emit evs s1)
           | (None, evs) \<Rightarrow> import_layers w c layers (emit evs s1))))"

definition upload_levels_gpkg :: "world \<Rightarrow> gadm_config \<Rightarrow> state \<Rightarrow> (py_error + unit) \<times> state" where
  "upload_levels_gpkg w c s =
     (case files s (gadm_raw_dir c) of
        None \<Rightarrow> (Inl (FileNotFoundError (gadm_raw_dir c)), s)
      | Some gpkg \<Rightarrow>
     (case gpkg_layers w gpkg of
        None \<Rightarrow> (Inl SqliteError, s)
      | Some layers \<Rightarrow>
          if layers = [] then (Inl (ValueError (''No feature layers found in '' @ gadm_raw_dir c)), s)
          else
          (case connect_error (db w) of
             Some e \<Rightarrow> (Inl (PsycopgError e), emit [Connect (connection_string c)] s)
           | None \<Rightarrow> import_layers w c layers (emit [Connect (connection_string c)] s))))"

definition cleanup_geopackage :: "gadm_config \<Rightarrow> state \<Rightarrow> state" where
  "cleanup_geopackage c s =
     (if path_exists s (gadm_raw_dir c)
      then emit [Print (CleanedUp (gadm_raw_dir c))] (unlink (gadm_raw_dir c) s)
      else emit [Print (NotFoundNothingToClean (gadm_raw_dir c))] s)"

definition gadm_main :: "world \<Rightarrow> bool \<Rightarrow> state \<Rightarrow> (py_error + int) \<times> state" where
  \<comment> \<open>\<open>Inr\<close> is the exit code returned; \<open>Inl\<close> is an exception that leaves \<open>main\<close>\<close>
  "gadm_main w force s =
     (case gadm_load_config (environ w) of
        Inl e \<Rightarrow> except is_configuration_error 1 e s
      | Inr c \<Rightarrow>
     (case gadm_verify_connection w c s of
        (Inl e, s1) \<Rightarrow> (Inl e, s1)
      | (Inr _, s1) \<Rightarrow>
     (case gadm_check_existing_data w c s1 of
        (Inl e, s2) \<Rightarrow> (Inl e, s2)
      | (Inr existing, s2) \<Rightarrow>
          if existing \<and> \<not> force then (Inr 0, emit [Print ExistingDataSkipping] s2)
          else
     (case download_geopackage_levels w c s2 of
        (Inl e, s3) \<Rightarrow> (Inl e, s3)
      | (Inr _, s3) \<Rightarrow>
     (case upload_levels_gpkg w c s3 of
        (Inl e, s4) \<Rightarrow> (Inl e, s4)
      | (Inr _, s4) \<Rightarrow> (Inr 0, cleanup_geopackage c s4))))))"


section \<open>OSM job: fetcher, transformer, loader, driver\<close>

definition osm_raw_dir :: "osm_config \<Rightarrow> path" where
  "osm_raw_dir c = path_join (data_dir c) ''raw''"

definition osm_filtered_dir :: "osm_config \<Rightarrow> path" where
  "osm_filtered_dir c = path_join (data_dir c) ''filtered''"

definition get_download_url :: "osm_config \<Rightarrow> string" where
  "get_download_url c =
     (if region c = ''planet'' then
        (if str_in ''download.geofabrik.de'' (geofabrik_base_url c)
         then ''https://planet.openstreetmap.org/pbf/planet-latest.osm.pbf''
         else geofabrik_base_url c @ ''/planet-latest.osm.pbf'')
      else geofabrik_base_url c @ ''/'' @ region c @ ''-latest.osm.pbf'')"

definition osm_raw_file :: "osm_config \<Rightarrow> path" where
  \<comment> \<open>\<open>output_file\<close> of \<open>download_region\<close>\<close>
  "osm_raw_file c = path_join (osm_raw_dir c) (region c @ ''-latest.osm.pbf'')"

definition remove_partial :: "path \<Rightarrow> state \<Rightarrow> state" where
  \<comment> \<open>\<open>if output_file.exists(): output_file.unlink()\<close>\<close>
  "remove_partial p s = (if path_exists s p then unlink p s else s)"

definition download_region :: "world \<Rightarrow> osm_config \<Rightarrow> state \<Rightarrow> (py_error + path) \<times> state" where
  "download_region w c s =
     (let url = get_download_url c;
          output_file = osm_raw_file c;
          s1 = emit [Mkdir (osm_raw_dir c)] s
      in
      if path_exists s1 output_file then
        (Inr output_file, emit [Print (FileExistsSkippingDownload output_file)] s1)
      else
        (case http w url of
           RequestFails e \<Rightarrow>
             (Inl (DownloadError (DownloadFailed e)), remove_partial output_file (emit [HttpGet url] s1))
         | Response content_length chunks broken \<Rightarrow>
             (case (case content_length of None \<Rightarrow> Some 0 | Some v \<Rightarrow> py_int v) of
                None \<Rightarrow>
                  (Inl (DownloadError UnexpectedDownloadError),
                   remove_partial output_file (emit [HttpGet url] s1))
              | Some total_size \<Rightarrow>
                  (let s2 = write_file output_file (concat chunks)
                              (emit [HttpGet url, OpenWrite output_file] s1)
                   in case broken of
                        Some e \<Rightarrow> (Inl (DownloadError (DownloadFailed e)), remove_partial output_file s2)
                      | None \<Rightarrow> (Inr output_file, s2)))))"

definition osmium_cmd :: "path \<Rightarrow> path \<Rightarrow> string list" where
  "osmium_cmd input_file output_file =
     [''osmium'', ''tags-filter'', input_file, ''w/highway'', ''-o'', output_file,
      ''--overwrite'', ''--progress'']"

definition filter_roads :: "world \<Rightarrow> path \<Rightarrow> path \<Rightarrow> state \<Rightarrow> (py_error + unit) \<times> state" where
  \<comment> \<open>After a zero exit code the sizes of both files are read; a missing file there is
      caught by the clause written for a missing command.\<close>
  "filter_roads w input_file output_file s =
     (case run_tool w (osmium_cmd input_file output_file) (emit [Mkdir (path_parent output_file)] s) of
        (NotInstalled, s1) \<Rightarrow> (Inl (FilterError CommandNotFound), s1)
      | (Exited rc, s1) \<Rightarrow>
          if rc \<noteq> 0 then (Inl (FilterError (ExitCode rc)), s1)
          else if \<not> path_exists s1 input_file \<or> \<not> path_exists s1 output_file
          then (Inl (FilterError CommandNotFound), s1)
          else (Inr (), s1))"

definition osm_filtered_file :: "osm_config \<Rightarrow> path \<Rightarrow> path" where
  \<comment> \<open>\<open>output_file\<close> of \<open>filter_osm_data\<close>\<close>
  "osm_filtered_file c input_file =
     path_join (osm_filtered_dir c)
       (str_replace ''-latest'' [] (path_stem input_file) @ ''-roads.osm.pbf'')"

definition filter_osm_data ::
  "world \<Rightarrow> osm_config \<Rightarrow> path \<Rightarrow> state \<Rightarrow> (py_error + path) \<times> state" where
  "filter_osm_data w c input_file s =
     (let output_file = osm_filtered_file c input_file in
      if path_exists s output_file then
        (Inr output_file, emit [Print (FilteredExistsSkipping output_file)] s)
      else
        (case filter_roads w input_file output_file s of
           (Inl e, s1) \<Rightarrow> (Inl e, s1)
         | (Inr _, s1) \<Rightarrow> (Inr output_file, s1)))"

definition osm2pgsql_cmd :: "osm_config \<Rightarrow> path \<Rightarrow> string list" where
  "osm2pgsql_cmd c pbf_file =
     [''osm2pgsql'', ''--slim'', ''--hstore'', ''--multi-geometry'', ''--create'',
      ''-d'', db_name c, ''-U'', db_user c, ''-H'', db_host c, ''-P'', str_of_int (db_port c),
      ''-S'', ''/usr/share/osm2pgsql/default.style'',
      ''--cache'', str_of_int (cache_size_mb c),
      ''--number-processes'', str_of_int (num_processes c)]
     @ (if drop_slim_tables c then [''--drop''] else [])
     @ [pbf_file]"

definition upload_to_database ::
  "world \<Rightarrow> osm_config \<Rightarrow> path \<Rightarrow> state \<Rightarrow> (py_error + unit) \<times> state" where
  "upload_to_database w c pbf_file s =
     (case run_tool w (osm2pgsql_cmd c pbf_file) s of
        (NotInstalled, s1) \<Rightarrow> (Inl (UploadError CommandNotFound), s1)
      | (Exited rc, s1) \<Rightarrow>
          if rc \<noteq> 0 then (Inl (UploadError (ExitCode rc)), s1) else (Inr (), s1))"

definition cleanup_file :: "bool \<Rightarrow> path \<Rightarrow> message \<Rightarrow> state \<Rightarrow> state" where
  \<comment> \<open>\<open>if config.cleanup and f.exists(): f.unlink()\<close>, with the message printed after\<close>
  "cleanup_file enabled f msg s =
     (if enabled \<and> path_exists s f then emit [Print msg] (unlink f s) else s)"

definition osm_main :: "world \<Rightarrow> state \<Rightarrow> (py_error + int) \<times> state" where
  "osm_main w s =
     (case osm_load_config (environ w) of
        Inl e \<Rightarrow> except is_configuration_error 1 e s
      | Inr c \<Rightarrow>
     (case osm_verify_connection w c s of
        (Inl e, s1) \<Rightarrow> except is_database_error 4 e s1
      | (Inr _, s1) \<Rightarrow>
     (case osm_check_existing_data w c s1 of
        (Inl e, s2) \<Rightarrow> except is_database_error 4 e s2
      | (Inr existing, s2) \<Rightarrow>
          if existing then (Inr 0, emit [Print ExistingDataSkipping] s2)
          else
     (case download_region w c s2 of
        (Inl e, s3) \<Rightarrow> except is_download_error 2 e s3
      | (Inr raw_file, s3) \<Rightarrow>
     (case filter_osm_data w c raw_file s3 of
        (Inl e, s4) \<Rightarrow> except is_filter_error 3 e s4
      | (Inr filtered_file, s4) \<Rightarrow>
     (case upload_to_database w c filtered_file
             (cleanup_file (cleanup c) raw_file (RawFileDeleted raw_file) s4) of
        (Inl e, s5) \<Rightarrow> except is_upload_error 4 e s5
      | (Inr _, s5) \<Rightarrow>
          (Inr 0, emit [Print PipelineComplete]
                    (cleanup_file (cleanup c) filtered_file (FilteredFileDeleted filtered_file) s5))))))))"

section \<open>Vocabulary of the properties\<close>





fun is_http_request :: "event \<Rightarrow> bool" where
  "is_http_request (HttpGet _) = True"
| "is_http_request _ = False"

fun is_tool_invocation :: "event \<Rightarrow> bool" where
  "is_tool_invocation (RunTool _) = True"
| "is_tool_invocation _ = False"

fun is_deletion :: "event \<Rightarrow> bool" where
  "is_deletion (Unlink _) = True"
| "is_deletion _ = False"

fun is_file_change :: "event \<Rightarrow> bool" where
  "is_file_change (Mkdir _) = True"
| "is_file_change (OpenWrite _) = True"
| "is_file_change (WriteText _) = True"
| "is_file_change (Extract _) = True"
| "is_file_change (Rename _ _) = True"
| "is_file_change (Unlink _) = True"
| "is_file_change _ = False"

definition outside_effect :: "event \<Rightarrow> bool" where
  \<comment> \<open>an HTTP request, an external-tool invocation or a change to the filesystem\<close>
  "outside_effect ev = (is_http_request ev \<or> is_tool_invocation ev \<or> is_file_change ev)"


definition network_or_tool :: "event \<Rightarrow> bool" where
  "network_or_tool ev = (is_http_request ev \<or> is_tool_invocation ev)"

definition levels :: "string list" where
  \<comment> \<open>the administrative levels of the tables that \<open>check_existing_data\<close> looks for\<close>
  "levels = [''0'', ''1'', ''2'', ''3'', ''4'', ''5'']"


definition set_encoding :: "string \<Rightarrow> string \<Rightarrow> world \<Rightarrow> world" where
  \<comment> \<open>the same world, with the encoding of the named database as given\<close>
  "set_encoding name enc w =
     w\<lparr>db := (db w)\<lparr>pg_database := (pg_database (db w))(name \<mapsto> enc)\<rparr>\<rparr>"


section \<open>Example environments\<close>

definition osm_env :: environ where
  "osm_env = [''OSM_REGION'' \<mapsto> ''europe'', ''DB_HOST'' \<mapsto> ''db'', ''DB_NAME'' \<mapsto> ''gis'',
              ''DB_USER'' \<mapsto> ''osm'', ''DB_PASSWORD'' \<mapsto> ''secret'']"

definition osm_cfg :: osm_config where
  "osm_cfg = \<lparr> db_host = ''db'', db_port = 5432, db_name = ''gis'', db_user = ''osm'',
               db_password = ''secret'', data_dir = ''/app/data'', region = ''europe'',
               cache_size_mb = 2000, num_processes = 4, cleanup = True,
               drop_slim_tables = False,
               geofabrik_base_url = ''https://download.geofabrik.de'',
               log_level = ''INFO'', log_format = ''json'' \<rparr>"

definition gadm_blank_env :: environ where
  \<comment> \<open>a blank port and a URL of one space\<close>
  "gadm_blank_env = [''DB_HOST'' \<mapsto> ''db'', ''DB_NAME'' \<mapsto> ''gis'', ''DB_USER'' \<mapsto> ''gadm'',
                     ''DB_PASSWORD'' \<mapsto> ''secret'', ''DB_PORT'' \<mapsto> [],
                     ''GADM_GEOPACKAGE_URL'' \<mapsto> '' '']"

definition gadm_blank_cfg :: gadm_config where
  "gadm_blank_cfg = \<lparr> db_host = ''db'', db_port = 5432, db_name = ''gis'', db_user = ''gadm'',
                      db_password = ''secret'', data_dir = ''/app/data'',
                      ogr2ogr_path = ''/usr/bin/ogr2ogr'', gadm_geopackage_url = '' '' \<rparr>"

definition silent_db :: database where
  \<comment> \<open>a reachable UTF8 database with no tables, where no statement fails\<close>
  "silent_db = \<lparr> connect_error = None, execute_error = (\<lambda>q. None),
                 pg_database = (\<lambda>n. Some ''UTF8''), tables = [] \<rparr>"

definition latin1_db :: database where
  \<comment> \<open>as \<open>silent_db\<close>, but LATIN1 and already holding an OSM table\<close>
  "latin1_db = silent_db\<lparr>pg_database := (\<lambda>n. Some ''LATIN1''), tables := [''planet_osm_point'']\<rparr>"

definition loaded_db :: database where
  \<comment> \<open>as \<open>silent_db\<close>, but already holding a table of each job\<close>
  "loaded_db = silent_db\<lparr>tables := [''spatial_ref_sys'', ''admin1'', ''planet_osm_line'']\<rparr>"

definition offline_world :: "environ \<Rightarrow> database \<Rightarrow> world" where
  \<comment> \<open>no HTTP server answers and no tool is installed\<close>
  "offline_world env d =
     \<lparr> environ = env, db = d, http = (\<lambda>url. RequestFails ConnectionError),
       tool = (\<lambda>cmd fs. (NotInstalled, fs)), md5 = (\<lambda>content. 0),
       zip_members = (\<lambda>z. None), gpkg_layers = (\<lambda>g. None) \<rparr>"

definition serving_world :: "environ \<Rightarrow> database \<Rightarrow> int \<Rightarrow> world" where
  \<comment> \<open>The HTTP server delivers a body in two chunks; osmium writes its output file (the
      argument after \<open>-o\<close>) and exits with 0; every other tool changes no file and exits
      with the given code. The archive holds one GeoPackage with two layers.\<close>
  "serving_world env d rc =
     \<lparr> environ = env, db = d, http = (\<lambda>url. Response (Some ''9'') [''PK34'', ''ADM_0''] None),
       tool = (\<lambda>cmd fs. if hd cmd = ''osmium'' then (Exited 0, fs(cmd ! 5 \<mapsto> ''roads''))
                         else (Exited rc, fs)),
       md5 = (\<lambda>content. of_nat (length content)),
       zip_members = (\<lambda>z. Some [(''README.txt'', ''read me''), (''levels.gpkg'', ''gpkg'')]),
       gpkg_layers = (\<lambda>g. Some [''ADM_0'', ''ADM_1'']) \<rparr>"



definition empty_state :: state where
  "empty_state = \<lparr> files = Map.empty, trace = [] \<rparr>"


section \<open>Configuration loader: properties\<close>

lemma str_lower_Nil_iff: "str_lower v = [] \<longleftrightarrow> v = []"
  by (simp add: str_lower_def)

lemma osm_load_config_bools:
  "osm_load_config env = Inr c \<Longrightarrow>
     cleanup c = get_env_bool env ''CLEANUP'' True \<and>
     drop_slim_tables c = get_env_bool env ''DROP_SLIM_TABLES'' False"
  unfolding osm_load_config_def Let_def
  by (simp split: if_splits sum.splits) auto

lemma osm_load_config_ignores_bools:
  "isl (osm_load_config (env(''CLEANUP'' := x, ''DROP_SLIM_TABLES'' := y))) = isl (osm_load_config env)"
proof -
  let ?env = "env(''CLEANUP'' := x, ''DROP_SLIM_TABLES'' := y)"
  have g: "\<And>k d. k \<noteq> ''CLEANUP'' \<Longrightarrow> k \<noteq> ''DROP_SLIM_TABLES'' \<Longrightarrow>
             getenv_or ?env k d = getenv_or env k d"
    by (simp add: getenv_or_def)
  have i: "\<And>k d. k \<noteq> ''CLEANUP'' \<Longrightarrow> k \<noteq> ''DROP_SLIM_TABLES'' \<Longrightarrow>
             get_env_int ?env k d = get_env_int env k d"
    by (simp add: get_env_int_def)
  show ?thesis
    unfolding osm_load_config_def Let_def
    by (simp add: g i split: sum.splits)
qed

text \<open>
  Claim C10. Boolean parsing has no error branch. An unset or empty variable gives the
  default; a value whose lower case is one of true, 1, yes, on gives true; every other
  non-empty value gives false. \<open>load_config\<close> of the OSM job takes CLEANUP (default true)
  and DROP\_SLIM\_TABLES (default false) from it, and whether \<open>load_config\<close> raises does
  not depend on what these two variables hold: CLEANUP set to an unrecognized string
  turns cleanup off and raises nothing.
\<close>

theorem get_env_bool_total:
  "(env key = None \<or> env key = Some [] \<longrightarrow> get_env_bool env key d = d) \<and>
   (env key = Some v \<and> str_lower v \<in> {''true'', ''1'', ''yes'', ''on''}
      \<longrightarrow> get_env_bool env key d = True) \<and>
   (env key = Some v \<and> v \<noteq> [] \<and> str_lower v \<notin> {''true'', ''1'', ''yes'', ''on''}
      \<longrightarrow> get_env_bool env key d = False) \<and>
   (osm_load_config env = Inr c \<longrightarrow>
      cleanup c = get_env_bool env ''CLEANUP'' True \<and>
      drop_slim_tables c = get_env_bool env ''DROP_SLIM_TABLES'' False) \<and>
   isl (osm_load_config (env(''CLEANUP'' := x, ''DROP_SLIM_TABLES'' := y)))
     = isl (osm_load_config env)"
proof -
  have eq: "get_env_bool env key d =
          (case env key of
             None \<Rightarrow> d
           | Some v \<Rightarrow> if v = [] then d else str_lower v \<in> {''true'', ''1'', ''yes'', ''on''})"
    by (simp add: get_env_bool_def getenv_or_def str_lower_Nil_iff split: option.splits)
  have unset: "env key = None \<or> env key = Some [] \<longrightarrow> get_env_bool env key d = d"
    using eq by auto
  have "str_lower v \<in> {''true'', ''1'', ''yes'', ''on''} \<Longrightarrow> v \<noteq> []"
    by (auto simp add: str_lower_def)
  then have yes: "env key = Some v \<and> str_lower v \<in> {''true'', ''1'', ''yes'', ''on''}
      \<longrightarrow> get_env_bool env key d = True"
    using eq by simp
  have no: "env key = Some v \<and> v \<noteq> [] \<and> str_lower v \<notin> {''true'', ''1'', ''yes'', ''on''}
      \<longrightarrow> get_env_bool env key d = False"
    using eq by simp
  show ?thesis
    using unset yes no osm_load_config_bools[of env c] osm_load_config_ignores_bools[of env x y]
    by blast
qed

lemma osm_load_config_osm_env: "osm_load_config osm_env = Inr osm_cfg"
  by code_simp

lemma osm_load_config_cleanup_maybe:
  "osm_load_config (osm_env(''CLEANUP'' \<mapsto> ''Maybe'')) = Inr (osm_cfg\<lparr>cleanup := False\<rparr>)"
  by code_simp

theorem get_env_bool_total_witness:
  "get_env_bool (osm_env(''CLEANUP'' \<mapsto> ''Maybe'')) ''CLEANUP'' True = False \<and>
   get_env_bool (osm_env(''CLEANUP'' \<mapsto> ''YES'')) ''CLEANUP'' False = True \<and>
   get_env_bool osm_env ''CLEANUP'' True = True \<and>
   cleanup (osm_cfg\<lparr>cleanup := False\<rparr>) = False"
proof -
  have a: "(osm_env(''CLEANUP'' \<mapsto> ''Maybe'')) ''CLEANUP'' = Some ''Maybe'' \<and> ''Maybe'' \<noteq> []
           \<and> str_lower ''Maybe'' \<notin> {''true'', ''1'', ''yes'', ''on''}"
    by code_simp
  have b: "(osm_env(''CLEANUP'' \<mapsto> ''YES'')) ''CLEANUP'' = Some ''YES''
           \<and> str_lower ''YES'' \<in> {''true'', ''1'', ''yes'', ''on''}"
    by code_simp
  have c: "osm_env ''CLEANUP'' = None"
    by code_simp
  show ?thesis
    using a b c osm_load_config_cleanup_maybe
      get_env_bool_total[of "osm_env(''CLEANUP'' \<mapsto> ''Maybe'')" "''CLEANUP''" True "''Maybe''"
                            "osm_cfg\<lparr>cleanup := False\<rparr>"]
      get_env_bool_total[of "osm_env(''CLEANUP'' \<mapsto> ''YES'')" "''CLEANUP''" False "''YES''"]
      get_env_bool_total[of osm_env "''CLEANUP''" True]
    by simp
qed



















section \<open>Database gatekeeper: properties\<close>

lemma trace_emit [simp]: "trace (emit evs s) = trace s @ evs"
  by (simp add: emit_def)

lemma files_emit [simp]: "files (emit evs s) = files s"
  by (simp add: emit_def)

lemma emit_emit [simp]: "emit evs' (emit evs s) = emit (evs @ evs') s"
  by (simp add: emit_def)

lemma execute_all_set_encoding [simp]:
  "execute_all (db (set_encoding n e w)) qs = execute_all (db w) qs"
  by (induction qs) (simp_all add: set_encoding_def split: option.splits)

lemma verify_same_on_utf8:
  "connect_error (db w) \<noteq> None \<or> execute_error (db w) (SelectEncoding (db_name c)) \<noteq> None \<or>
   pg_database (db w) (db_name c) = None \<or> pg_database (db w) (db_name c) = Some ''UTF8''
   \<Longrightarrow> gadm_verify_connection w c s = osm_verify_connection w c s"
  unfolding gadm_verify_connection_def osm_verify_connection_def
  by (auto split: option.splits)

lemma osm_verify_mismatch:
  "connect_error (db w) = None \<Longrightarrow> execute_error (db w) (SelectEncoding (db_name c)) = None \<Longrightarrow>
   pg_database (db w) (db_name c) = Some enc \<Longrightarrow> enc \<noteq> ''UTF8'' \<Longrightarrow>
   osm_verify_connection w c s =
     (Inl (DatabaseError (MustUseUTF8 enc)),
      emit [Connect (connection_string c), Execute (SelectEncoding (db_name c))] s)"
  unfolding osm_verify_connection_def by simp

lemma gadm_verify_mismatch:
  assumes "connect_error (db w) = None" "execute_error (db w) (SelectEncoding (db_name c)) = None"
    and "pg_database (db w) (db_name c) = Some enc" "enc \<noteq> ''UTF8''"
  shows "\<exists>r evs. gadm_verify_connection w c s =
           (r, emit (Connect (connection_string c) # Execute (SelectEncoding (db_name c))
                       # Execute (UpdateEncoding (db_name c)) # evs) s) \<and>
         (execute_error (db w) (UpdateEncoding (db_name c)) = None \<longrightarrow>
            gadm_verify_connection (set_encoding (db_name c) ''UTF8'' w) c s =
              (r, emit (Connect (connection_string c) # Execute (SelectEncoding (db_name c)) # evs) s))"
proof (cases "execute_error (db w) (UpdateEncoding (db_name c))")
  case None
  obtain r evs where x: "execute_all (db w) ensure_extensions = (r, evs)"
    by (cases "execute_all (db w) ensure_extensions")
  let ?res = "case r of Some e \<Rightarrow> Inl (wrap_psycopg e) | None \<Rightarrow> Inr ()"
  have fixed: "connect_error (db (set_encoding (db_name c) ''UTF8'' w)) = None"
    "execute_error (db (set_encoding (db_name c) ''UTF8'' w)) = execute_error (db w)"
    "pg_database (db (set_encoding (db_name c) ''UTF8'' w)) (db_name c) = Some ''UTF8''"
    using assms(1) by (simp_all add: set_encoding_def)
  have "gadm_verify_connection w c s =
          (?res, emit (Connect (connection_string c) # Execute (SelectEncoding (db_name c))
                       # Execute (UpdateEncoding (db_name c)) # evs) s)"
    unfolding gadm_verify_connection_def using assms None x by simp
  moreover have "gadm_verify_connection (set_encoding (db_name c) ''UTF8'' w) c s =
          (?res, emit (Connect (connection_string c) # Execute (SelectEncoding (db_name c)) # evs) s)"
    unfolding gadm_verify_connection_def fixed using assms x by simp
  ultimately show ?thesis
    by (intro exI[of _ ?res] exI[of _ evs]) simp
next
  case (Some e)
  have "gadm_verify_connection w c s =
          (Inl (wrap_psycopg e), emit (Connect (connection_string c) # Execute (SelectEncoding (db_name c))
                       # Execute (UpdateEncoding (db_name c)) # []) s)"
    unfolding gadm_verify_connection_def using assms Some by simp
  with Some show ?thesis
    by (intro exI[of _ "Inl (wrap_psycopg e)"] exI[of _ "[]"]) simp
qed

lemma verify_all_well:
  "connect_error (db w) = None \<Longrightarrow> (\<forall>q. execute_error (db w) q = None) \<Longrightarrow>
   pg_database (db w) (db_name c) = Some ''UTF8'' \<Longrightarrow>
   osm_verify_connection w c s =
     (Inr (), emit [Connect (connection_string c), Execute (SelectEncoding (db_name c)),
                    Execute CreateExtensionPostgis, Execute SelectPostgisVersion,
                    Execute CreateExtensionHstore, Execute Commit] s)"
  unfolding osm_verify_connection_def ensure_extensions_def by simp

lemma verify_not_found:
  "connect_error (db w) = None \<Longrightarrow> execute_error (db w) (SelectEncoding (db_name c)) = None \<Longrightarrow>
   pg_database (db w) (db_name c) = None \<Longrightarrow>
   osm_verify_connection w c s =
     (Inl (DatabaseError (DatabaseNotFound (db_name c))),
      emit [Connect (connection_string c), Execute (SelectEncoding (db_name c))] s)"
  unfolding osm_verify_connection_def by simp

text \<open>
  Claim C7. On a database whose encoding is not UTF8 the OSM job raises a database error
  right after reading the encoding, and sends nothing more. The GADM job sends the UPDATE
  of the encoding next and, when the UPDATE does not fail, goes on with exactly the
  statements and the result it has on the same database with encoding UTF8. In every
  other case (no connection, a failing query, no such database, encoding UTF8) the two
  jobs return the same result and send the same statements: on a UTF8 database where
  nothing fails, the creation of postgis and hstore; for a database that is not found,
  the same database error.
\<close>

theorem verify_connection_policies:
  "(connect_error (db w) = None \<and> execute_error (db w) (SelectEncoding (db_name c)) = None \<and>
    pg_database (db w) (db_name c) = Some enc \<and> enc \<noteq> ''UTF8'' \<longrightarrow>
      osm_verify_connection w c s =
        (Inl (DatabaseError (MustUseUTF8 enc)),
         emit [Connect (connection_string c), Execute (SelectEncoding (db_name c))] s) \<and>
      (\<exists>r evs.
         gadm_verify_connection w c s =
           (r, emit (Connect (connection_string c) # Execute (SelectEncoding (db_name c))
                       # Execute (UpdateEncoding (db_name c)) # evs) s) \<and>
         (execute_error (db w) (UpdateEncoding (db_name c)) = None \<longrightarrow>
            gadm_verify_connection (set_encoding (db_name c) ''UTF8'' w) c s =
              (r, emit (Connect (connection_string c) # Execute (SelectEncoding (db_name c))
                          # evs) s)))) \<and>
   (connect_error (db w) \<noteq> None \<or> execute_error (db w) (SelectEncoding (db_name c)) \<noteq> None \<or>
    pg_database (db w) (db_name c) = None \<or> pg_database (db w) (db_name c) = Some ''UTF8'' \<longrightarrow>
      gadm_verify_connection w c s = osm_verify_connection w c s) \<and>
   (connect_error (db w) = None \<and> (\<forall>q. execute_error (db w) q = None) \<and>
    pg_database (db w) (db_name c) = Some ''UTF8'' \<longrightarrow>
      osm_verify_connection w c s =
        (Inr (), emit [Connect (connection_string c), Execute (SelectEncoding (db_name c)),
                       Execute CreateExtensionPostgis, Execute SelectPostgisVersion,
                       Execute CreateExtensionHstore, Execute Commit] s)) \<and>
   (connect_error (db w) = None \<and> execute_error (db w) (SelectEncoding (db_name c)) = None \<and>
    pg_database (db w) (db_name c) = None \<longrightarrow>
      osm_verify_connection w c s =
        (Inl (DatabaseError (DatabaseNotFound (db_name c))),
         emit [Connect (connection_string c), Execute (SelectEncoding (db_name c))] s))"
  using osm_verify_mismatch[of w c enc s] gadm_verify_mismatch[of w c enc s]
    verify_same_on_utf8[of w c s] verify_all_well[of w c s] verify_not_found[of w c s]
  by blast

theorem verify_connection_policies_witness:
  "osm_verify_connection (offline_world osm_env latin1_db) osm_cfg empty_state =
     (Inl (DatabaseError (MustUseUTF8 ''LATIN1'')),
      \<lparr> files = Map.empty,
        trace = [Connect (connection_string osm_cfg), Execute (SelectEncoding ''gis'')] \<rparr>) \<and>
   gadm_verify_connection (offline_world osm_env latin1_db) osm_cfg empty_state =
     (Inr (),
      \<lparr> files = Map.empty,
        trace = [Connect (connection_string osm_cfg), Execute (SelectEncoding ''gis''),
                 Execute (UpdateEncoding ''gis''),
                 Execute CreateExtensionPostgis, Execute SelectPostgisVersion,
                 Execute CreateExtensionHstore, Execute Commit] \<rparr>) \<and>
   gadm_verify_connection (offline_world osm_env silent_db) osm_cfg empty_state =
     osm_verify_connection (offline_world osm_env silent_db) osm_cfg empty_state"
proof -
  let ?w = "offline_world osm_env latin1_db"
  have h: "connect_error (db ?w) = None \<and>
           execute_error (db ?w) (SelectEncoding (db_name osm_cfg)) = None \<and>
           pg_database (db ?w) (db_name osm_cfg) = Some ''LATIN1'' \<and> ''LATIN1'' \<noteq> ''UTF8''"
    by (simp add: offline_world_def latin1_db_def silent_db_def)
  have u: "pg_database (db (offline_world osm_env silent_db)) (db_name osm_cfg) = Some ''UTF8''"
    by (simp add: offline_world_def silent_db_def)
  have n: "db_name osm_cfg = ''gis''"
    by (simp add: osm_cfg_def)
  have g: "gadm_verify_connection ?w osm_cfg empty_state =
     (Inr (),
      \<lparr> files = Map.empty,
        trace = [Connect (connection_string osm_cfg), Execute (SelectEncoding ''gis''),
                 Execute (UpdateEncoding ''gis''),
                 Execute CreateExtensionPostgis, Execute SelectPostgisVersion,
                 Execute CreateExtensionHstore, Execute Commit] \<rparr>)"
    by (simp add: gadm_verify_connection_def offline_world_def latin1_db_def silent_db_def
          ensure_extensions_def n emit_def empty_state_def)
  show ?thesis
    using h u g
      verify_connection_policies[of ?w osm_cfg "''LATIN1''" empty_state]
      verify_connection_policies[of "offline_world osm_env silent_db" osm_cfg _ empty_state]
    by (simp add: n emit_def empty_state_def)
qed

section \<open>Effects: basic facts\<close>

lemma trace_write_file [simp]: "trace (write_file p x s) = trace s"
  by (simp add: write_file_def)

lemma files_write_file [simp]: "files (write_file p x s) = (files s)(p \<mapsto> x)"
  by (simp add: write_file_def)

lemma trace_unlink [simp]: "trace (unlink p s) = trace s @ [Unlink p]"
  by (simp add: unlink_def)

lemma files_unlink [simp]: "files (unlink p s) = (files s)(p := None)"
  by (simp add: unlink_def)



lemma execute_all_quiet:
  "(\<And>q. \<not> P (Execute q)) \<Longrightarrow> filter P (snd (execute_all d qs)) = []"
  by (induction qs) (auto split: option.splits prod.splits)

lemma execute_all_quiet':
  "(\<And>q. \<not> P (Execute q)) \<Longrightarrow> execute_all d qs = (r, evs) \<Longrightarrow> filter P evs = []"
  using execute_all_quiet[of P d qs] by simp

lemma osm_verify_quiet:
  assumes "\<And>x. \<not> P (Connect x)" "\<And>q. \<not> P (Execute q)"
  shows "filter P (trace (snd (osm_verify_connection w c s))) = filter P (trace s)"
  unfolding osm_verify_connection_def
  by (auto simp add: assms execute_all_quiet'[of P] split: option.splits prod.splits)

lemma gadm_verify_quiet:
  assumes "\<And>x. \<not> P (Connect x)" "\<And>q. \<not> P (Execute q)"
  shows "filter P (trace (snd (gadm_verify_connection w c s))) = filter P (trace s)"
  unfolding gadm_verify_connection_def
  by (auto simp add: assms execute_all_quiet'[of P] split: option.splits prod.splits)

lemma osm_verify_files: "files (snd (osm_verify_connection w c s)) = files s"
  unfolding osm_verify_connection_def
  by (auto split: option.splits prod.splits)

lemma gadm_verify_files: "files (snd (gadm_verify_connection w c s)) = files s"
  unfolding gadm_verify_connection_def
  by (auto split: option.splits prod.splits)


lemma verify_ok_connects:
  "fst (osm_verify_connection w c s) = Inr () \<Longrightarrow> connect_error (db w) = None"
  "fst (gadm_verify_connection w c s) = Inr () \<Longrightarrow> connect_error (db w) = None"
  unfolding osm_verify_connection_def gadm_verify_connection_def
  by (auto split: option.splits prod.splits if_splits)

lemma check_tables_quiet:
  assumes "\<And>x. \<not> P (Connect x)" "\<And>q. \<not> P (Execute q)"
  shows "filter P (trace (snd (check_tables ts w c s))) = filter P (trace s)"
  unfolding check_tables_def
  by (auto simp add: assms split: option.splits)

lemma check_tables_files: "files (snd (check_tables ts w c s)) = files s"
  unfolding check_tables_def by (auto split: option.splits)


lemma check_tables_existing:
  "connect_error (db w) = None \<Longrightarrow> execute_error (db w) (SelectExistsTables ts) = None \<Longrightarrow>
   fst (check_tables ts w c s) = Inr (set (tables (db w)) \<inter> set ts \<noteq> {})"
  unfolding check_tables_def by (auto simp add: list_ex_iff)


section \<open>Idempotency guard\<close>

lemma gadm_short_circuit:
  assumes "gadm_load_config (environ w) = Inr c" "fst (gadm_verify_connection w c s) = Inr ()"
    and "execute_error (db w) (SelectExistsTables gadm_tables) = None"
    and "set (tables (db w)) \<inter> set gadm_tables \<noteq> {}" "\<not> force"
  shows "gadm_main w force s =
           (Inr 0, emit [Print ExistingDataSkipping]
                     (snd (gadm_check_existing_data w c (snd (gadm_verify_connection w c s)))))"
proof -
  obtain s1 where v: "gadm_verify_connection w c s = (Inr (), s1)"
    using assms(2) by (cases "gadm_verify_connection w c s") auto
  obtain r2 s2 where k: "gadm_check_existing_data w c s1 = (r2, s2)"
    by (cases "gadm_check_existing_data w c s1")
  have "r2 = Inr True"
    using check_tables_existing[OF verify_ok_connects(2)[OF assms(2)] assms(3), of c s1] assms(4) k
    by (simp add: gadm_check_existing_data_def)
  then show ?thesis
    using assms(1,5) v k by (simp add: gadm_main_def)
qed

lemma osm_short_circuit:
  assumes "osm_load_config (environ w) = Inr c" "fst (osm_verify_connection w c s) = Inr ()"
    and "execute_error (db w) (SelectExistsTables osm_tables) = None"
    and "set (tables (db w)) \<inter> set osm_tables \<noteq> {}"
  shows "osm_main w s =
           (Inr 0, emit [Print ExistingDataSkipping]
                     (snd (osm_check_existing_data w c (snd (osm_verify_connection w c s)))))"
proof -
  obtain s1 where v: "osm_verify_connection w c s = (Inr (), s1)"
    using assms(2) by (cases "osm_verify_connection w c s") auto
  obtain r2 s2 where k: "osm_check_existing_data w c s1 = (r2, s2)"
    by (cases "osm_check_existing_data w c s1")
  have "r2 = Inr True"
    using check_tables_existing[OF verify_ok_connects(1)[OF assms(2)] assms(3), of c s1] assms(4) k
    by (simp add: osm_check_existing_data_def)
  then show ?thesis
    using assms(1) v k by (simp add: osm_main_def)
qed

lemma outside_effect_simps [simp]:
  "\<not> outside_effect (Connect x)" "\<not> outside_effect (Execute q)" "\<not> outside_effect (Print m)"
  by (simp_all add: outside_effect_def)

text \<open>
  Claim C1, as stated, fails. A database that holds planet\_osm\_point and whose encoding is
  LATIN1 is a database state in which an expected table exists; the OSM driver returns
  4 on it, because \<open>verify_connection\<close> runs before the existence check and rejects the
  encoding.
\<close>

theorem existing_data_short_circuit_counterexample:
  "set (tables (db (offline_world osm_env latin1_db))) \<inter> set osm_tables \<noteq> {} \<and>
   fst (osm_main (offline_world osm_env latin1_db) empty_state) = Inr 4"
proof -
  let ?w = "offline_world osm_env latin1_db"
  have w: "environ ?w = osm_env" "db ?w = latin1_db"
    by (simp_all add: offline_world_def)
  have d: "connect_error latin1_db = None" "execute_error latin1_db = (\<lambda>q. None)"
    "pg_database latin1_db = (\<lambda>n. Some ''LATIN1'')" "tables latin1_db = [''planet_osm_point'']"
    by (simp_all add: latin1_db_def silent_db_def)
  have v: "osm_verify_connection ?w osm_cfg empty_state =
             (Inl (DatabaseError (MustUseUTF8 ''LATIN1'')),
              emit [Connect (connection_string osm_cfg), Execute (SelectEncoding (db_name osm_cfg))]
                empty_state)"
    by (rule osm_verify_mismatch) (simp_all add: w d)
  have "fst (osm_main ?w empty_state) = Inr 4"
    by (simp add: osm_main_def w osm_load_config_osm_env v except_def)
  moreover have "set (tables (db ?w)) \<inter> set osm_tables \<noteq> {}"
    by (simp add: w d osm_tables_def)
  ultimately show ?thesis by simp
qed

text \<open>
  Claim C1, amended. When the configuration loads, \<open>verify_connection\<close> succeeds (for
  the OSM job this needs a UTF8 database) and the existence query succeeds on a database
  where any of the expected tables exists (admin0 to admin5 for the GADM job,
  planet\_osm\_point, planet\_osm\_line, planet\_osm\_polygon for the OSM job), the driver
  run without a force override returns 0 right after the existence check: it prints the
  skip message and stops. The files are as before, and the run has made no HTTP request,
  started no external tool and changed nothing on the filesystem; its only effects are
  the statements of the verification and of the existence check.
\<close>

theorem existing_data_short_circuit:
  "(gadm_load_config (environ w) = Inr c \<and> fst (gadm_verify_connection w c s) = Inr () \<and>
    execute_error (db w) (SelectExistsTables gadm_tables) = None \<and>
    set (tables (db w)) \<inter> set gadm_tables \<noteq> {} \<and> \<not> force \<longrightarrow>
      gadm_main w force s =
        (Inr 0, emit [Print ExistingDataSkipping]
                  (snd (gadm_check_existing_data w c (snd (gadm_verify_connection w c s))))) \<and>
      files (snd (gadm_main w force s)) = files s \<and>
      filter outside_effect (trace (snd (gadm_main w force s))) = filter outside_effect (trace s)) \<and>
   (osm_load_config (environ w) = Inr c' \<and> fst (osm_verify_connection w c' s) = Inr () \<and>
    execute_error (db w) (SelectExistsTables osm_tables) = None \<and>
    set (tables (db w)) \<inter> set osm_tables \<noteq> {} \<longrightarrow>
      osm_main w s =
        (Inr 0, emit [Print ExistingDataSkipping]
                  (snd (osm_check_existing_data w c' (snd (osm_verify_connection w c' s))))) \<and>
      files (snd (osm_main w s)) = files s \<and>
      filter outside_effect (trace (snd (osm_main w s))) = filter outside_effect (trace s))"
proof -
  have g: "files (emit [Print ExistingDataSkipping]
             (snd (gadm_check_existing_data w c (snd (gadm_verify_connection w c s))))) = files s"
    "filter outside_effect (trace (emit [Print ExistingDataSkipping]
             (snd (gadm_check_existing_data w c (snd (gadm_verify_connection w c s))))))
       = filter outside_effect (trace s)"
    by (simp_all add: gadm_check_existing_data_def check_tables_files gadm_verify_files
          check_tables_quiet gadm_verify_quiet)
  have o: "files (emit [Print ExistingDataSkipping]
             (snd (osm_check_existing_data w c' (snd (osm_verify_connection w c' s))))) = files s"
    "filter outside_effect (trace (emit [Print ExistingDataSkipping]
             (snd (osm_check_existing_data w c' (snd (osm_verify_connection w c' s))))))
       = filter outside_effect (trace s)"
    by (simp_all add: osm_check_existing_data_def check_tables_files osm_verify_files
          check_tables_quiet osm_verify_quiet)
  show ?thesis
    using gadm_short_circuit[of w c s force] osm_short_circuit[of w c' s] g o
    by auto
qed

lemma gadm_env_loads: "gadm_load_config (gadm_blank_env(''DB_PORT'' \<mapsto> ''5433'')) = Inr (gadm_blank_cfg\<lparr>db_port := 5433\<rparr>)"
  by code_simp

theorem existing_data_short_circuit_witness:
  "gadm_main (offline_world (gadm_blank_env(''DB_PORT'' \<mapsto> ''5433'')) loaded_db) False empty_state =
     (Inr 0, \<lparr> files = Map.empty,
               trace = [Connect (connection_string (gadm_blank_cfg\<lparr>db_port := 5433\<rparr>)),
                        Execute (SelectEncoding ''gis''),
                        Execute CreateExtensionPostgis, Execute SelectPostgisVersion,
                        Execute CreateExtensionHstore, Execute Commit,
                        Connect (connection_string (gadm_blank_cfg\<lparr>db_port := 5433\<rparr>)),
                        Execute (SelectExistsTables gadm_tables),
                        Print ExistingDataSkipping] \<rparr>) \<and>
   osm_main (offline_world osm_env loaded_db) empty_state =
     (Inr 0, \<lparr> files = Map.empty,
               trace = [Connect (connection_string osm_cfg), Execute (SelectEncoding ''gis''),
                        Execute CreateExtensionPostgis, Execute SelectPostgisVersion,
                        Execute CreateExtensionHstore, Execute Commit,
                        Connect (connection_string osm_cfg),
                        Execute (SelectExistsTables osm_tables),
                        Print ExistingDataSkipping] \<rparr>)"
proof -
  let ?g = "offline_world (gadm_blank_env(''DB_PORT'' \<mapsto> ''5433'')) loaded_db"
  let ?c = "gadm_blank_cfg\<lparr>db_port := 5433\<rparr>"
  let ?o = "offline_world osm_env loaded_db"
  have db: "connect_error loaded_db = None" "execute_error loaded_db = (\<lambda>q. None)"
    "pg_database loaded_db = (\<lambda>n. Some ''UTF8'')"
    by (simp_all add: loaded_db_def silent_db_def)
  have w: "environ ?g = gadm_blank_env(''DB_PORT'' \<mapsto> ''5433'')" "db ?g = loaded_db"
    "environ ?o = osm_env" "db ?o = loaded_db"
    by (simp_all add: offline_world_def)
  have n: "db_name ?c = ''gis''" "db_name osm_cfg = ''gis''"
    by (simp_all add: gadm_blank_cfg_def osm_cfg_def)
  have gv: "gadm_verify_connection ?g ?c empty_state =
     (Inr (), \<lparr> files = Map.empty,
               trace = [Connect (connection_string ?c), Execute (SelectEncoding ''gis''),
                        Execute CreateExtensionPostgis, Execute SelectPostgisVersion,
                        Execute CreateExtensionHstore, Execute Commit] \<rparr>)"
    by (simp add: gadm_verify_connection_def w db n ensure_extensions_def emit_def empty_state_def)
  have ov: "osm_verify_connection ?o osm_cfg empty_state =
     (Inr (), \<lparr> files = Map.empty,
               trace = [Connect (connection_string osm_cfg), Execute (SelectEncoding ''gis''),
                        Execute CreateExtensionPostgis, Execute SelectPostgisVersion,
                        Execute CreateExtensionHstore, Execute Commit] \<rparr>)"
    by (simp add: osm_verify_connection_def w db n ensure_extensions_def emit_def empty_state_def)
  have t: "set (tables loaded_db) \<inter> set gadm_tables \<noteq> {}"
    "set (tables loaded_db) \<inter> set osm_tables \<noteq> {}"
    by (simp_all add: loaded_db_def silent_db_def gadm_tables_def osm_tables_def)
  have gk: "snd (gadm_check_existing_data ?g ?c s) =
              emit [Connect (connection_string ?c), Execute (SelectExistsTables gadm_tables)] s" for s
    by (simp add: gadm_check_existing_data_def check_tables_def w db)
  have ok: "snd (osm_check_existing_data ?o osm_cfg s) =
              emit [Connect (connection_string osm_cfg), Execute (SelectExistsTables osm_tables)] s" for s
    by (simp add: osm_check_existing_data_def check_tables_def w db)
  have G: "gadm_main ?g False empty_state =
        (Inr 0, emit [Print ExistingDataSkipping]
                  (snd (gadm_check_existing_data ?g ?c (snd (gadm_verify_connection ?g ?c empty_state)))))"
    by (rule existing_data_short_circuit[of ?g ?c empty_state False, THEN conjunct1, THEN mp, THEN conjunct1])
       (simp add: w gadm_env_loads gv db t)
  have O: "osm_main ?o empty_state =
        (Inr 0, emit [Print ExistingDataSkipping]
                  (snd (osm_check_existing_data ?o osm_cfg (snd (osm_verify_connection ?o osm_cfg empty_state)))))"
    by (rule existing_data_short_circuit[of ?o _ empty_state _ osm_cfg, THEN conjunct2, THEN mp, THEN conjunct1])
       (simp add: w osm_load_config_osm_env ov db t)
  show ?thesis
    unfolding G O gv ov gk ok by (simp add: emit_def)
qed

section \<open>OSM fetcher: properties\<close>

lemma download_region_existing:
  "files s (osm_raw_file c) = Some content \<Longrightarrow>
   download_region w c s =
     (Inr (osm_raw_file c),
      emit [Mkdir (osm_raw_dir c), Print (FileExistsSkippingDownload (osm_raw_file c))] s)"
  by (simp add: download_region_def Let_def path_exists_def)






lemma osm_raw_file_eq:
  "osm_raw_file c = data_dir c @ ''/raw/'' @ region c @ ''-latest.osm.pbf''"
  by (simp add: osm_raw_file_def osm_raw_dir_def path_join_def)

text \<open>
  Claim C4. When the destination file \<open><data_dir>/raw/<region>-latest.osm.pbf\<close> exists,
  whatever it holds, the OSM fetcher returns that path, makes no HTTP request and leaves
  the files as they are.
\<close>

theorem existing_file_skips_download:
  "files s (data_dir c @ ''/raw/'' @ region c @ ''-latest.osm.pbf'') = Some content \<longrightarrow>
     fst (download_region w c s) = Inr (data_dir c @ ''/raw/'' @ region c @ ''-latest.osm.pbf'') \<and>
     filter is_http_request (trace (snd (download_region w c s))) = filter is_http_request (trace s) \<and>
     files (snd (download_region w c s)) = files s"
  using download_region_existing[of s c content w]
  by (simp add: osm_raw_file_eq)

theorem existing_file_skips_download_witness:
  "download_region (serving_world osm_env silent_db 0) osm_cfg
     \<lparr> files = [''/app/data/raw/europe-latest.osm.pbf'' \<mapsto> ''not a pbf''], trace = [] \<rparr> =
     (Inr ''/app/data/raw/europe-latest.osm.pbf'',
      \<lparr> files = [''/app/data/raw/europe-latest.osm.pbf'' \<mapsto> ''not a pbf''],
        trace = [Mkdir ''/app/data/raw'',
                 Print (FileExistsSkippingDownload ''/app/data/raw/europe-latest.osm.pbf'')] \<rparr>)"
proof -
  let ?s = "\<lparr> files = [''/app/data/raw/europe-latest.osm.pbf'' \<mapsto> ''not a pbf''], trace = [] \<rparr>"
  have p: "data_dir osm_cfg @ ''/raw/'' @ region osm_cfg @ ''-latest.osm.pbf''
             = ''/app/data/raw/europe-latest.osm.pbf''"
    by (simp add: osm_cfg_def)
  have r: "osm_raw_file osm_cfg = ''/app/data/raw/europe-latest.osm.pbf''"
    "osm_raw_dir osm_cfg = ''/app/data/raw''"
    by (simp_all add: osm_raw_file_def osm_raw_dir_def path_join_def osm_cfg_def)
  have "fst (download_region (serving_world osm_env silent_db 0) osm_cfg ?s)
          = Inr ''/app/data/raw/europe-latest.osm.pbf'' \<and>
        files (snd (download_region (serving_world osm_env silent_db 0) osm_cfg ?s)) = files ?s"
    using existing_file_skips_download[of ?s osm_cfg "''not a pbf''" "serving_world osm_env silent_db 0"]
    unfolding p by simp
  moreover have "trace (snd (download_region (serving_world osm_env silent_db 0) osm_cfg ?s)) =
     [Mkdir ''/app/data/raw'', Print (FileExistsSkippingDownload ''/app/data/raw/europe-latest.osm.pbf'')]"
    by (simp add: download_region_existing[of ?s osm_cfg "''not a pbf''"] r)
  ultimately show ?thesis
    by (cases "download_region (serving_world osm_env silent_db 0) osm_cfg ?s") auto
qed

section \<open>GADM fetcher: properties\<close>



lemma needs_download_emit [simp]: "needs_download w c (emit evs s) = needs_download w c s"
  by (simp add: needs_download_def read_md5_def split: option.splits)


lemma last_path_join: "name \<noteq> [] \<Longrightarrow> last (path_join p name) = last name"
  by (simp add: path_join_def)





















section \<open>GADM loader: properties\<close>

lemma str_split_not_Nil: "str_split sep s \<noteq> []"
  by (induction s) (auto split: list.splits)



lemma str_split_short: "length (str_split sep s) < 2 \<longleftrightarrow> sep \<notin> set s"
proof (induction s)
  case Nil
  then show ?case by simp
next
  case (Cons c cs)
  then show ?case
    using str_split_not_Nil[of sep cs]
    by (cases "str_split sep cs") auto
qed


lemma layer_table_valid:
  "CHR ''_'' \<in> set layer \<Longrightarrow> layer_table layer = Inr (''admin'' @ str_split (CHR ''_'') layer ! 1)"
  using str_split_short[of "CHR ''_''" layer]
  by (simp add: layer_table_def Let_def)


lemma import_layers_invalid:
  "layer_table layer = Inl e \<Longrightarrow> import_layers w c (layer # layers) s = (Inl e, s)"
  by simp








section \<open>OSM driver: properties\<close>

lemma run_tool_files_missing:
  "run_tool w cmd s = (NotInstalled, s') \<Longrightarrow> files s' = files s"
  by (auto simp add: run_tool_def split: prod.splits tool_outcome.splits)

lemma network_or_tool_simps [simp]:
  "network_or_tool (HttpGet u)" "network_or_tool (RunTool cmd)"
  "\<not> network_or_tool (Connect x)" "\<not> network_or_tool (Execute q)" "\<not> network_or_tool (Print m)"
  "\<not> network_or_tool (Mkdir p)" "\<not> network_or_tool (OpenWrite p)" "\<not> network_or_tool (WriteText p)"
  "\<not> network_or_tool (Extract p)" "\<not> network_or_tool (Rename p p')" "\<not> network_or_tool (Unlink p)"
  by (simp_all add: network_or_tool_def)









lemma download_region_trace:
  "\<exists>evs. trace (snd (download_region w c s)) = trace s @ evs \<and>
         filter network_or_tool evs =
           (if path_exists s (osm_raw_file c) then [] else [HttpGet (get_download_url c)]) \<and>
         (filter is_deletion evs = [] \<or> filter is_deletion evs = [Unlink (osm_raw_file c)])"
  unfolding download_region_def Let_def remove_partial_def path_exists_def
  by (auto split: http_response.splits option.splits)

lemma osm_verify_trace:
  "\<exists>evs. trace (snd (osm_verify_connection w c s)) = trace s @ evs \<and>
         filter network_or_tool evs = [] \<and> filter is_deletion evs = []"
  unfolding osm_verify_connection_def
  by (auto simp add: execute_all_quiet' split: option.splits prod.splits)

lemma check_tables_trace:
  "\<exists>evs. trace (snd (check_tables ts w c s)) = trace s @ evs \<and>
         filter network_or_tool evs = [] \<and> filter is_deletion evs = []"
  unfolding check_tables_def
  by (auto split: option.splits)





lemma hd_cmd [simp]:
  "hd (osmium_cmd i p) = ''osmium''" "osmium_cmd i p \<noteq> []"
  "hd (osm2pgsql_cmd c p) = ''osm2pgsql''" "osm2pgsql_cmd c p \<noteq> []"
  by (simp_all add: osmium_cmd_def osm2pgsql_cmd_def)






lemma serving_world_simps [simp]:
  "environ (serving_world env d rc) = env" "db (serving_world env d rc) = d"
  "http (serving_world env d rc) u = Response (Some ''9'') [''PK34'', ''ADM_0''] None"
  "tool (serving_world env d rc) cmd fs =
     (if hd cmd = ''osmium'' then (Exited 0, fs(cmd ! 5 \<mapsto> ''roads'')) else (Exited rc, fs))"
  by (simp_all add: serving_world_def)










section \<open>Cleanup: properties\<close>
















end
